theory Spec2Isabelle
  imports Main
begin

section \<open>Documents, positions and diagnostics\<close>

text \<open>
  The language server works on the editor protocol's data: a position is a line and a
  character (column) number, a text document has a URI and a text, a diagnostic has a
  range, a message and optional severity, code and source. A string of the program is a
  list of characters here, a character standing for one code unit of the string; the only
  characters the code looks at are LF, CR, the colon, the hyphen, the space and the white
  space that \<open>trim\<close> removes.

  The line of a position is a natural number, as the protocol has it. The column is an
  integer: \<open>completionHelper\<close> subtracts one from it without looking at it first, so
  that column 0 becomes -1.
\<close>

record position =
  line :: nat
  character :: int

record lspRange =
  rangeStart :: position
  rangeEnd :: position

definition Range_create :: "position \<Rightarrow> position \<Rightarrow> lspRange" where
  "Range_create s e = \<lparr>rangeStart = s, rangeEnd = e\<rparr>"

record textDocument =
  uri :: string
  getText :: string

record diagnostic =
  range' :: lspRange
  severity :: "nat option"
  code :: "string option"
  source :: "string option"
  message :: string

section \<open>The JavaScript operations the code relies on\<close>

text \<open>
  Indexing an array or a string out of range gives \<open>undefined\<close> in JavaScript and
  raises nothing: \<open>js_index\<close> gives \<open>None\<close> there.
\<close>

definition js_index :: "'a list \<Rightarrow> nat \<Rightarrow> 'a option" where
  "js_index xs i = (if i < length xs then Some (xs ! i) else None)"

text \<open>
  \<open>String.prototype.substring\<close> on two offsets: each is clamped to the length of the
  string, and the two are swapped when the first is the larger. \<open>substr\<close> with one
  offset gives the rest of the string from there. \<open>trim\<close> removes white space and line
  terminators at both ends (here those among the characters below 256), and
  \<open>endsWith\<close> compares the end of the string.
\<close>

definition js_substring :: "string \<Rightarrow> nat \<Rightarrow> nat \<Rightarrow> string" where
  "js_substring s a b =
     (let a' = min a (length s); b' = min b (length s)
      in take (max a' b' - min a' b') (drop (min a' b') s))"

definition js_substr :: "string \<Rightarrow> nat \<Rightarrow> string" where
  "js_substr s a = drop a s"

definition isWhiteSpace :: "char \<Rightarrow> bool" where
  "isWhiteSpace c =
     (c \<in> set [CHR 0x09, CHR 0x0A, CHR 0x0B, CHR 0x0C, CHR 0x0D, CHR 0x20, CHR 0xA0])"

definition js_trim :: "string \<Rightarrow> string" where
  "js_trim s = rev (dropWhile isWhiteSpace (rev (dropWhile isWhiteSpace s)))"

definition js_endsWith :: "string \<Rightarrow> string \<Rightarrow> bool" where
  "js_endsWith s t = (length t \<le> length s \<and> drop (length s - length t) s = t)"

text \<open>
  A value of JavaScript, as far as the hover code can tell values apart: what
  \<open>getValue()\<close> of a syntax node gives is typed \<open>any\<close>. A value is truthy unless it is
  \<open>undefined\<close>, \<open>null\<close>, \<open>false\<close>, 0 or the empty string. A number is an integer
  here: the code treats all numbers but 0 alike.
\<close>

datatype jsValue =
  JUndefined | JNull | JBoolean bool | JNumber int | JString string
| JArray "jsValue list" | JObject "(string \<times> jsValue) list"

fun truthy :: "jsValue \<Rightarrow> bool" where
  "truthy JUndefined = False"
| "truthy JNull = False"
| "truthy (JBoolean b) = b"
| "truthy (JNumber n) = (n \<noteq> 0)"
| "truthy (JString s) = (s \<noteq> [])"
| "truthy (JArray xs) = True"
| "truthy (JObject ps) = True"

text \<open>
  A call of a method that the value does not have raises a \<open>TypeError\<close>.
\<close>

datatype error = TypeError

text \<open>
  \<open>v.indexOf(t) === 0\<close> for a truthy value \<open>v\<close> and a string \<open>t\<close>: a string has the
  method, and the result is 0 when the string begins with \<open>t\<close>; an array has it, and the
  result is 0 when its first element is the string \<open>t\<close>; a number, a boolean or an object
  has no such method.
\<close>

fun indexOf_is_0 :: "jsValue \<Rightarrow> string \<Rightarrow> error + bool" where
  "indexOf_is_0 (JString s) t = Inr (take (length t) s = t)"
| "indexOf_is_0 (JArray xs) t = Inr (case xs of [] \<Rightarrow> False | x # _ \<Rightarrow> x = JString t)"
| "indexOf_is_0 v t = Inl TypeError"

text \<open>
  \<open>String(n)\<close> of a natural number is its decimal numeral.
\<close>

definition digitChar :: "nat \<Rightarrow> char" where
  "digitChar n = ''0123456789'' ! n"

function string_of_nat :: "nat \<Rightarrow> string" where
  "string_of_nat n =
     (let higher = n div 10 in
      if higher = 0 then [digitChar n] else string_of_nat higher @ [digitChar (n mod 10)])"
  by pat_completeness auto
termination
  by (relation "measure id") auto

section \<open>Validation: \<open>validateTextDocument\<close>\<close>

text \<open>
  The tags handed to the parser with every validation (\<open>customTags\<close> of the server).
\<close>

definition customTags :: "string list" where
  "customTags =
    [''!And'', ''!If'', ''!Not'', ''!Equals'', ''!Or'', ''!FindInMap'', ''!Base64'',
     ''!Cidr'', ''!Ref'', ''!Sub'', ''!GetAtt'', ''!GetAZs'', ''!ImportValue'',
     ''!Select'', ''!Split'', ''!Join'']"

text \<open>
  Modelled from the spec: \<open>removeDuplicatesObj\<close> (the server imports it from
  \<open>language-service/utils/arrayUtils\<close>) is not among the sources. The spec's words are
  "duplicate diagnostics (same range + message) are removed before being handed to the
  caller": one pass over the list that keeps a diagnostic unless one with the same range
  and the same message has been kept before it.
\<close>

definition diagnosticKey :: "diagnostic \<Rightarrow> lspRange \<times> string" where
  "diagnosticKey d = (range' d, message d)"

fun removeDuplicatesFrom :: "(lspRange \<times> string) list \<Rightarrow> diagnostic list \<Rightarrow> diagnostic list" where
  "removeDuplicatesFrom seen [] = []"
| "removeDuplicatesFrom seen (d # ds) =
     (if diagnosticKey d \<in> set seen then removeDuplicatesFrom seen ds
      else d # removeDuplicatesFrom (diagnosticKey d # seen) ds)"

definition removeDuplicatesObj :: "diagnostic list \<Rightarrow> diagnostic list" where
  "removeDuplicatesObj ds = removeDuplicatesFrom [] ds"

text \<open>
  What \<open>validateTextDocument\<close> does to the outside world, in order: it has the text
  parsed, it has the parsed document validated, and it sends a list of diagnostics for a
  URI to the editor (\<open>connection.sendDiagnostics\<close>).
\<close>

datatype 'y effect =
  ParseYAML string "string list"
| DoValidation textDocument 'y
| SendDiagnostics string "diagnostic list"

text \<open>
  \<open>validateTextDocument\<close>. The document classifier \<open>isSupportedDocument\<close>, the parser
  \<open>parseYAML\<close> and the language service's \<open>doValidation\<close> are collaborators that are
  not among the sources: they are parameters, and \<open>doValidation\<close> gives the list its
  promise resolves to. A missing document (\<open>!textDocument\<close>) is \<open>None\<close>. The callback
  takes the diagnostics in order (\<open>forEach\<close>), sets the severity of each to 1 and pushes
  it onto the list \<open>diagnostics\<close>, which starts empty and which \<open>removeDuplicatesObj\<close>
  then filters.
\<close>

definition validateTextDocument ::
  "(string \<Rightarrow> bool) \<Rightarrow> (string \<Rightarrow> string list \<Rightarrow> 'y) \<Rightarrow>
   (textDocument \<Rightarrow> 'y \<Rightarrow> diagnostic list) \<Rightarrow> textDocument option \<Rightarrow> 'y effect list" where
  "validateTextDocument isSupportedDocument parseYAML doValidation textDocument =
     (case textDocument of
        None \<Rightarrow> []
      | Some td \<Rightarrow>
          (let text = getText td in
           if length text = 0 then [SendDiagnostics (uri td) []]
           else if \<not> isSupportedDocument text then [SendDiagnostics (uri td) []]
           else
             (let yamlDocument = parseYAML text customTags;
                  diagnosticResults = doValidation td yamlDocument;
                  diagnostics = foldl (\<lambda>diagnostics diagnosticItem.
                                         diagnostics @ [diagnosticItem\<lparr>severity := Some 1\<rparr>])
                                  [] diagnosticResults
              in [ParseYAML text customTags,
                  DoValidation td yamlDocument,
                  SendDiagnostics (uri td) (removeDuplicatesObj diagnostics)])))"

section \<open>Completion: \<open>completionHelper\<close>\<close>

text \<open>
  \<open>is_EOL\<close> of the server, on a character instead of its code.
\<close>

definition is_EOL :: "char \<Rightarrow> bool" where
  "is_EOL c = (c = CHR 0x0A \<or> c = CHR 0x0D)"

text \<open>
  The loop \<open>while (end - 1 >= 0 && is_EOL(text.charCodeAt(end - 1))) end--\<close>, as a
  function of the text and the initial \<open>end\<close>. \<open>charCodeAt\<close> past the end of the text is
  \<open>NaN\<close>, which is no line end. The loop looks at nothing but \<open>end\<close>: it does not stop
  at the start of the line.
\<close>

fun skipEOL :: "string \<Rightarrow> nat \<Rightarrow> nat" where
  "skipEOL text 0 = 0"
| "skipEOL text (Suc e) =
     (if e < length text \<and> is_EOL (text ! e) then skipEOL text e else Suc e)"

text \<open>
  \<open>lineOffset[linePos + 1]\<close> where it is truthy (neither \<open>undefined\<close> nor 0), and the
  length of the text otherwise: the initial \<open>end\<close>, and the offset from which the rest of
  the text is taken (\<open>lineOffset[linePos + 1] || document.getText().length\<close>).
\<close>

definition nextLineOffset :: "nat list \<Rightarrow> nat \<Rightarrow> string \<Rightarrow> nat" where
  "nextLineOffset lineOffset linePos text =
     (case js_index lineOffset (linePos + 1) of
        Some n \<Rightarrow> if n \<noteq> 0 then n else length text
      | None \<Rightarrow> length text)"

text \<open>
  The constant \<open>textLine\<close> of \<open>completionHelper\<close>: the substring from \<open>start\<close> to
  \<open>end\<close>. \<open>start\<close> is \<open>lineOffset[linePos]\<close>, which is \<open>undefined\<close> when the table has
  no such line; \<open>substring\<close> reads \<open>undefined\<close> as 0.
\<close>

definition textLineAt :: "nat list \<Rightarrow> nat \<Rightarrow> string \<Rightarrow> string" where
  "textLineAt lineOffset linePos text =
     (let start = js_index lineOffset linePos;
          end' = skipEOL text (nextLineOffset lineOffset linePos text)
      in js_substring text (case start of None \<Rightarrow> 0 | Some s \<Rightarrow> s) end')"

record completionFix =
  newText :: string
  newPosition :: position

text \<open>
  \<open>completionHelper\<close>. The table of line offsets comes from \<open>getLineOffsets\<close> of
  \<open>language-service/utils/arrayUtils\<close>, which is not among the sources: it is a
  parameter. With \<open>start\<close> undefined, \<open>start + textLine.length\<close> is \<open>NaN\<close> and
  \<open>substring(0, NaN)\<close> is the empty string. The branch for a line with a colon changes
  the column of the position it was given and returns that position.
\<close>

definition completionHelper ::
  "(string \<Rightarrow> nat list) \<Rightarrow> textDocument \<Rightarrow> position \<Rightarrow> completionFix" where
  "completionHelper getLineOffsets document textDocumentPosition =
     (let linePos = line textDocumentPosition;
          text = getText document;
          lineOffset = getLineOffsets text;
          start = js_index lineOffset linePos;
          textLine = textLineAt lineOffset linePos text
      in if CHR '':'' \<notin> set textLine then
           (let trimmedText = js_trim textLine;
                before = (case start of
                            None \<Rightarrow> []
                          | Some s \<Rightarrow> js_substring text 0 (s + length textLine));
                rest = js_substr text (nextLineOffset lineOffset linePos text)
            in if length trimmedText = 0
                  \<or> (length trimmedText = 1 \<and> trimmedText ! 0 = CHR ''-'') then
                 \<lparr>newText = before
                    @ (if js_index trimmedText 0 = Some CHR ''-'' \<and> \<not> js_endsWith textLine '' ''
                       then '' '' else [])
                    @ ''holder:'' @ [CHR 0x0D, CHR 0x0A] @ rest,
                  newPosition = textDocumentPosition\<rparr>
               else
                 \<lparr>newText = before @ '':'' @ [CHR 0x0D, CHR 0x0A] @ rest,
                  newPosition = textDocumentPosition\<rparr>)
         else
           \<lparr>newText = text,
            newPosition = textDocumentPosition\<lparr>character := character textDocumentPosition - 1\<rparr>\<rparr>)"

subsection \<open>The line of the cursor, as the specification speaks of it\<close>

text \<open>
  The line of the cursor with its terminator: the text from the offset of the line to
  the offset of the next line, or to the end of the text for the last line (nothing when
  the table has no such line). Its visible content is the line without the line ends at
  its end.
\<close>

definition cursorLine :: "nat list \<Rightarrow> nat \<Rightarrow> string \<Rightarrow> string" where
  "cursorLine lineOffset linePos text =
     (case js_index lineOffset linePos of
        None \<Rightarrow> []
      | Some start \<Rightarrow> take (nextLineOffset lineOffset linePos text - start) (drop start text))"

definition visibleLine :: "nat list \<Rightarrow> nat \<Rightarrow> string \<Rightarrow> string" where
  "visibleLine lineOffset linePos text =
     rev (dropWhile is_EOL (rev (cursorLine lineOffset linePos text)))"

text \<open>
  Splicing a string into a text at an offset leaves the text before and after the offset
  as it was.
\<close>

definition spliceAt :: "string \<Rightarrow> nat \<Rightarrow> string \<Rightarrow> string" where
  "spliceAt text i ins = take i text @ ins @ drop i text"

text \<open>
  What \<open>completionHelper\<close> puts in the place of the terminator of a line without a colon:
  for a blank line or a lone sequence marker the placeholder key (after a space, when the
  marker has none), for any other line the colon; in both cases followed by CR LF.
\<close>

definition lineRepair :: "string \<Rightarrow> string" where
  "lineRepair visible =
     (if js_trim visible = [] \<or> js_trim visible = ''-''
      then (if js_trim visible = ''-'' \<and> \<not> js_endsWith visible '' '' then '' '' else [])
           @ ''holder:'' @ [CHR 0x0D, CHR 0x0A]
      else '':'' @ [CHR 0x0D, CHR 0x0A])"

section \<open>Hover: \<open>doHover\<close>, \<open>getResourceName\<close>, \<open>getPropertyName\<close>\<close>

text \<open>
  A segment of a node's path is a key or an index. \<open>String(segment)\<close> is the key itself
  or the numeral of the index; a segment is truthy unless it is the empty key or the
  index 0.
\<close>

datatype segment = Key string | Index nat

fun String :: "segment \<Rightarrow> string" where
  "String (Key s) = s"
| "String (Index n) = string_of_nat n"

fun truthy_segment :: "segment \<Rightarrow> bool" where
  "truthy_segment (Key s) = (s \<noteq> [])"
| "truthy_segment (Index n) = (n \<noteq> 0)"

text \<open>
  The syntax tree comes from \<open>language-service/parser/jsonParser\<close>, which is not among
  the sources. A node is what the hover code reads of it: its \<open>type\<close>, \<open>start\<close> and
  \<open>end\<close>, its \<open>location\<close>, its \<open>parent\<close>, what \<open>getPath()\<close>, \<open>getChildNodes()\<close> and
  \<open>getValue()\<close> give for it and, for a property, its \<open>key\<close> and its \<open>value\<close>. A node
  carries the chain of its parents, and each of them its children; a field that a node
  does not have is \<open>None\<close>.
\<close>

datatype astNode = ASTNode
  (type: string) (start: int) (end': int) (location: "segment option")
  (parent: "astNode option") (getPath: "segment list") (getChildNodes: "astNode list")
  (key: "astNode option") (value': "astNode option") (getValue: jsValue)

text \<open>
  The callback of \<open>children.find\<close> in the inner \<open>getResourceName\<close>, run over the
  children in order: the first property with the key \<open>Type\<close> and a truthy value whose
  \<open>indexOf("AWS::")\<close> is 0 ends the search with that value. Reading \<open>location\<close> of a
  missing key, or calling \<open>indexOf\<close> on a value that has no such method, raises.
\<close>

fun findResourceType :: "astNode list \<Rightarrow> error + jsValue option" where
  "findResourceType [] = Inr None"
| "findResourceType (child # children) =
     (if type child = ''property'' then
        (case key child of
           None \<Rightarrow> Inl TypeError
         | Some k \<Rightarrow>
             if location k = Some (Key ''Type'') then
               (let resourceTypeValue =
                      (case value' child of None \<Rightarrow> JUndefined | Some v \<Rightarrow> getValue v)
                in if truthy resourceTypeValue then
                     (case indexOf_is_0 resourceTypeValue ''AWS::'' of
                        Inl e \<Rightarrow> Inl e
                      | Inr True \<Rightarrow> Inr (Some resourceTypeValue)
                      | Inr False \<Rightarrow> findResourceType children)
                   else findResourceType children)
             else findResourceType children)
      else findResourceType children)"

text \<open>
  The inner function \<open>getResourceName(targetNode)\<close> of the method of the same name.
\<close>

definition getResourceName_of :: "astNode \<Rightarrow> error + jsValue option" where
  "getResourceName_of targetNode =
     (if type targetNode \<noteq> ''object'' then Inr None
      else findResourceType (getChildNodes targetNode))"

definition maxDepth :: nat where
  "maxDepth = 7"

text \<open>
  The loop \<open>while (resourceName === undefined && currentNode && depth < maxDepth)\<close>,
  entered with \<open>resourceName\<close> undefined.
\<close>

function ancestorSearch :: "astNode option \<Rightarrow> nat \<Rightarrow> error + jsValue option" where
  "ancestorSearch currentNode depth =
     (case currentNode of
        None \<Rightarrow> Inr None
      | Some c \<Rightarrow>
          if depth < maxDepth then
            (case getResourceName_of c of
               Inl e \<Rightarrow> Inl e
             | Inr (Some resourceName) \<Rightarrow> Inr (Some resourceName)
             | Inr None \<Rightarrow> ancestorSearch (parent c) (depth + 1))
          else Inr None)"
  by pat_completeness auto
termination
  by (relation "measure (\<lambda>(c, depth). maxDepth - depth)") auto

definition getResourceName :: "astNode \<Rightarrow> error + jsValue option" where
  "getResourceName node =
     (let path = getPath node in
      if js_index path 0 = Some (Key ''Resources'') \<and> length path > 1 then
        (case getResourceName_of node of
           Inl e \<Rightarrow> Inl e
         | Inr (Some resourceName) \<Rightarrow> Inr (Some resourceName)
         | Inr None \<Rightarrow> ancestorSearch (parent node) 0)
      else Inr None)"

definition getPropertyName :: "astNode \<Rightarrow> segment option" where
  "getPropertyName node =
     (let path = getPath node in
      if length path \<ge> 4 \<and> path ! 0 = Key ''Resources'' \<and> path ! 2 = Key ''Properties''
      then Some (path ! 3) else None)"

record hover =
  contents :: "string list"
  hrange :: lspRange

definition createHover :: "string list \<Rightarrow> lspRange \<Rightarrow> hover" where
  "createHover cs hoverRange = \<lparr>contents = cs, hrange = hoverRange\<rparr>"

text \<open>
  The two requests that \<open>doHover\<close> makes to the documentation service.
\<close>

datatype docRequest =
  GetPropertyDocumentation jsValue string
| GetResourceDocumentation jsValue

text \<open>
  What \<open>doHover\<close> works with and that is not among the sources: the setting
  \<open>shouldHover\<close>, the schema service's \<open>getSchemaForResource\<close>, the document's
  \<open>offsetAt\<close> and \<open>positionAt\<close>, \<open>matchOffsetToDocument\<close>, the document's
  \<open>getNodeFromOffset\<close> and the two methods of the documentation service. Each gives the
  value that its call, or its promise, yields; \<open>None\<close> stands for \<open>undefined\<close>.
\<close>

record ('s, 'y, 'j) hoverContext =
  shouldHover :: bool
  getSchemaForResource :: "string \<Rightarrow> 's option"
  offsetAt :: "textDocument \<Rightarrow> position \<Rightarrow> int"
  positionAt :: "textDocument \<Rightarrow> int \<Rightarrow> position"
  matchOffsetToDocument :: "int \<Rightarrow> 'y \<Rightarrow> 'j option"
  getNodeFromOffset :: "'j \<Rightarrow> int \<Rightarrow> astNode option"
  getPropertyDocumentation :: "jsValue \<Rightarrow> string \<Rightarrow> string option"
  getResourceDocumentation :: "jsValue \<Rightarrow> string option"

text \<open>
  A run of \<open>doHover\<close> that raises nothing: the requests made to the documentation
  service, and the hover returned (\<open>None\<close> for \<open>undefined\<close>).
\<close>

record hoverRun =
  docRequests :: "docRequest list"
  answer :: "hover option"

definition noHover :: hoverRun where
  "noHover = \<lparr>docRequests = [], answer = None\<rparr>"

text \<open>
  The end of \<open>doHover\<close>: a hover is returned for a truthy markdown only.
\<close>

definition hoverFor :: "docRequest \<Rightarrow> string option \<Rightarrow> lspRange \<Rightarrow> hoverRun" where
  "hoverFor request markdown hoverRange =
     \<lparr>docRequests = [request],
      answer = (case markdown of
                  None \<Rightarrow> None
                | Some m \<Rightarrow> if m \<noteq> [] then Some (createHover [m] hoverRange) else None)\<rparr>"

definition doHover ::
  "('s, 'y, 'j) hoverContext \<Rightarrow> textDocument option \<Rightarrow> position \<Rightarrow> 'y \<Rightarrow> error + hoverRun" where
  "doHover this document position doc =
     (if \<not> shouldHover this then Inr noHover
      else case document of
        None \<Rightarrow> Inr noHover
      | Some d \<Rightarrow>
            (case getSchemaForResource this (uri d) of
               None \<Rightarrow> Inr noHover
             | Some schema \<Rightarrow>
                 (let offset = offsetAt this d position in
                  case matchOffsetToDocument this offset doc of
                    None \<Rightarrow> Inr noHover
                  | Some currentDoc \<Rightarrow>
                      (case getNodeFromOffset this currentDoc offset of
                         None \<Rightarrow> Inr noHover
                       | Some node \<Rightarrow>
                           if (type node = ''object'' \<or> type node = ''array'')
                              \<and> offset > start node + 1 \<and> offset < end' node - 1
                           then Inr noHover
                           else
                             (let hoverRange = Range_create (positionAt this d (start node))
                                                 (positionAt this d (end' node))
                              in if length (getPath node) \<ge> 2 then
                                   (case getResourceName node of
                                      Inl e \<Rightarrow> Inl e
                                    | Inr None \<Rightarrow> Inr noHover
                                    | Inr (Some resourceType) \<Rightarrow>
                                        (case getPropertyName node of
                                           None \<Rightarrow>
                                             Inr (hoverFor (GetResourceDocumentation resourceType)
                                                    (getResourceDocumentation this resourceType)
                                                    hoverRange)
                                         | Some propertyName \<Rightarrow>
                                             if truthy_segment propertyName then
                                               Inr (hoverFor
                                                      (GetPropertyDocumentation resourceType
                                                         (String propertyName))
                                                      (getPropertyDocumentation this resourceType
                                                         (String propertyName))
                                                      hoverRange)
                                             else
                                               Inr (hoverFor (GetResourceDocumentation resourceType)
                                                      (getResourceDocumentation this resourceType)
                                                      hoverRange)))
                                 else Inr noHover)))))"

subsection \<open>The request of the documentation service, as the specification speaks of it\<close>

text \<open>
  The answer of the documentation service to a request.
\<close>

definition askDocumentation :: "('s, 'y, 'j) hoverContext \<Rightarrow> docRequest \<Rightarrow> string option" where
  "askDocumentation this request =
     (case request of
        GetPropertyDocumentation resourceType propertyName \<Rightarrow>
          getPropertyDocumentation this resourceType propertyName
      | GetResourceDocumentation resourceType \<Rightarrow> getResourceDocumentation this resourceType)"

text \<open>
  The node lies in the body of a container: it is an object or an array and the offset
  is past its first and before its last character.
\<close>

definition insideContainer :: "astNode \<Rightarrow> int \<Rightarrow> bool" where
  "insideContainer node offset =
     ((type node = ''object'' \<or> type node = ''array'')
      \<and> start node + 1 < offset \<and> offset < end' node - 1)"

text \<open>
  The request as the specification has it: a path of the shape \<open>Resources\<close>, name,
  \<open>Properties\<close>, property asks for the documentation of the property, every other path
  for the documentation of the resource type.
\<close>

definition specifiedRequest :: "segment list \<Rightarrow> jsValue \<Rightarrow> docRequest" where
  "specifiedRequest path resourceType =
     (if length path \<ge> 4 \<and> path ! 0 = Key ''Resources'' \<and> path ! 2 = Key ''Properties''
      then GetPropertyDocumentation resourceType (String (path ! 3))
      else GetResourceDocumentation resourceType)"

text \<open>
  The same, where the fourth segment counts as a property only if it is truthy.
\<close>

definition documentationRequest :: "segment list \<Rightarrow> jsValue \<Rightarrow> docRequest" where
  "documentationRequest path resourceType =
     (if length path \<ge> 4 \<and> path ! 0 = Key ''Resources'' \<and> path ! 2 = Key ''Properties''
         \<and> truthy_segment (path ! 3)
      then GetPropertyDocumentation resourceType (String (path ! 3))
      else GetResourceDocumentation resourceType)"

text \<open>
  A small run of validation, used to exercise the theorems below: a template of one line,
  accepted by the classifier, for which the validation engine reports the same finding
  twice, once as a warning and once with no severity and another source, and a second
  finding as a hint.
\<close>

definition example_document :: textDocument where
  "example_document = \<lparr>uri = ''file:///template.yaml'', getText = ''Resources:''\<rparr>"

definition example_range :: lspRange where
  "example_range = Range_create \<lparr>line = 0, character = 0\<rparr> \<lparr>line = 0, character = 9\<rparr>"

definition example_results :: "diagnostic list" where
  "example_results =
    [\<lparr>range' = example_range, severity = Some 2, code = None, source = Some ''yaml'',
      message = ''Missing property''\<rparr>,
     \<lparr>range' = example_range, severity = None, code = None, source = None,
      message = ''Missing property''\<rparr>,
     \<lparr>range' = example_range, severity = Some 4, code = None, source = Some ''yaml'',
      message = ''Incorrect type''\<rparr>]"

definition example_published :: "diagnostic list" where
  "example_published =
    [\<lparr>range' = example_range, severity = Some 1, code = None, source = Some ''yaml'',
      message = ''Missing property''\<rparr>,
     \<lparr>range' = example_range, severity = Some 1, code = None, source = Some ''yaml'',
      message = ''Incorrect type''\<rparr>]"

definition example_validation :: "unit effect list" where
  "example_validation =
     validateTextDocument (\<lambda>text. True) (\<lambda>text tags. ()) (\<lambda>td y. example_results)
       (Some example_document)"

text \<open>
  A template for the examples of completion and hover. Its lines start at the offsets
  0, 11, 23, 49 and 65, and it is 85 characters long:
  \<^verbatim>\<open>
  Resources:
    MyBucket:
      Type: AWS::S3::Bucket
      Properties:
        BucketName: x
  \<close>
\<close>

definition example_template :: textDocument where
  "example_template =
     \<lparr>uri = ''file:///template.yaml'',
      getText = ''Resources:'' @ [CHR 0x0A] @ ''  MyBucket:'' @ [CHR 0x0A]
        @ ''    Type: AWS::S3::Bucket'' @ [CHR 0x0A] @ ''    Properties:'' @ [CHR 0x0A]
        @ ''      BucketName: x'' @ [CHR 0x0A]\<rparr>"

definition example_lineOffsets :: "nat list" where
  "example_lineOffsets = [0, 11, 23, 49, 65, 85]"

definition example_offsetAt :: "textDocument \<Rightarrow> position \<Rightarrow> int" where
  "example_offsetAt d p = int (example_lineOffsets ! line p) + character p"

definition example_positionAt :: "textDocument \<Rightarrow> int \<Rightarrow> position" where
  "example_positionAt d off =
     (if off < 11 then \<lparr>line = 0, character = off\<rparr>
      else if off < 23 then \<lparr>line = 1, character = off - 11\<rparr>
      else if off < 49 then \<lparr>line = 2, character = off - 23\<rparr>
      else if off < 65 then \<lparr>line = 3, character = off - 49\<rparr>
      else \<lparr>line = 4, character = off - 65\<rparr>)"

text \<open>
  The nodes of the template, as the hover code sees them from the value \<open>x\<close> of
  \<open>BucketName\<close> upwards. A key, a leaf and a property are given as a parent's list of
  children shows them: the code reads neither the parent nor the children of a child.
\<close>

definition keyOf :: "string \<Rightarrow> int \<Rightarrow> astNode" where
  "keyOf name s =
     ASTNode ''string'' s (s + int (length name)) (Some (Key name)) None [] [] None None
       (JString name)"

definition leafOf :: "string \<Rightarrow> jsValue \<Rightarrow> int \<Rightarrow> int \<Rightarrow> astNode" where
  "leafOf t v s e = ASTNode t s e None None [] [] None None v"

definition childProperty :: "string \<Rightarrow> int \<Rightarrow> astNode \<Rightarrow> astNode" where
  "childProperty name s v =
     ASTNode ''property'' s (end' v) None None [] [] (Some (keyOf name s)) (Some v) JUndefined"

text \<open>
  The tree above the resource: the root object, the property \<open>Resources\<close>, its object,
  and the property \<open>MyBucket\<close>. The resource's object follows; \<open>typeLeaf\<close> is the value
  node of its \<open>Type\<close>.
\<close>

definition example_root :: astNode where
  "example_root =
     ASTNode ''object'' 0 84 None None []
       [childProperty ''Resources'' 0 (leafOf ''object'' JUndefined 13 84)] None None JUndefined"

definition example_resources_property :: astNode where
  "example_resources_property =
     ASTNode ''property'' 0 84 None (Some example_root) []
       [] (Some (keyOf ''Resources'' 0)) (Some (leafOf ''object'' JUndefined 13 84)) JUndefined"

definition example_resources :: astNode where
  "example_resources =
     ASTNode ''object'' 13 84 (Some (Key ''Resources'')) (Some example_resources_property)
       [Key ''Resources'']
       [childProperty ''MyBucket'' 13 (leafOf ''object'' JUndefined 27 84)] None None JUndefined"

definition example_bucket_property :: astNode where
  "example_bucket_property =
     ASTNode ''property'' 13 84 None (Some example_resources) [Key ''Resources'']
       [] (Some (keyOf ''MyBucket'' 13)) (Some (leafOf ''object'' JUndefined 27 84)) JUndefined"

definition example_bucket :: "astNode \<Rightarrow> astNode" where
  "example_bucket typeLeaf =
     ASTNode ''object'' 27 84 (Some (Key ''MyBucket'')) (Some example_bucket_property)
       [Key ''Resources'', Key ''MyBucket'']
       [childProperty ''Type'' 27 typeLeaf,
        childProperty ''Properties'' 53 (leafOf ''object'' JUndefined 71 84)]
       None None JUndefined"

text \<open>
  Below the resource: the property \<open>Type\<close> and its value, the property \<open>Properties\<close>
  and its object, and in it one property with the key \<open>name\<close> and the value \<open>x\<close>.
\<close>

definition example_type_property :: "astNode \<Rightarrow> astNode" where
  "example_type_property typeLeaf =
     ASTNode ''property'' 27 48 None (Some (example_bucket typeLeaf))
       [Key ''Resources'', Key ''MyBucket'']
       [] (Some (keyOf ''Type'' 27)) (Some typeLeaf) JUndefined"

definition example_type_value :: "astNode \<Rightarrow> astNode" where
  "example_type_value typeLeaf =
     ASTNode (type typeLeaf) (start typeLeaf) (end' typeLeaf) (Some (Key ''Type''))
       (Some (example_type_property typeLeaf))
       [Key ''Resources'', Key ''MyBucket'', Key ''Type''] [] None None (getValue typeLeaf)"

definition example_properties_property :: "astNode \<Rightarrow> astNode" where
  "example_properties_property typeLeaf =
     ASTNode ''property'' 53 84 None (Some (example_bucket typeLeaf))
       [Key ''Resources'', Key ''MyBucket'']
       [] (Some (keyOf ''Properties'' 53)) (Some (leafOf ''object'' JUndefined 71 84)) JUndefined"

definition example_properties :: "astNode \<Rightarrow> string \<Rightarrow> astNode" where
  "example_properties typeLeaf name =
     ASTNode ''object'' 71 84 (Some (Key ''Properties''))
       (Some (example_properties_property typeLeaf))
       [Key ''Resources'', Key ''MyBucket'', Key ''Properties'']
       [childProperty name 71 (leafOf ''string'' (JString ''x'') 83 84)] None None JUndefined"

definition example_name_property :: "astNode \<Rightarrow> string \<Rightarrow> astNode" where
  "example_name_property typeLeaf name =
     ASTNode ''property'' 71 84 None (Some (example_properties typeLeaf name))
       [Key ''Resources'', Key ''MyBucket'', Key ''Properties'']
       [] (Some (keyOf name 71)) (Some (leafOf ''string'' (JString ''x'') 83 84)) JUndefined"

definition example_name_value :: "astNode \<Rightarrow> string \<Rightarrow> astNode" where
  "example_name_value typeLeaf name =
     ASTNode ''string'' 83 84 (Some (Key name)) (Some (example_name_property typeLeaf name))
       [Key ''Resources'', Key ''MyBucket'', Key ''Properties'', Key name] [] None None
       (JString ''x'')"

text \<open>
  The two values of \<open>Type\<close> in the examples: the resource type of the template, and
  the number 123 of a template that has \<open>Type: 123\<close> in its place.
\<close>

definition example_bucket_type :: astNode where
  "example_bucket_type = leafOf ''string'' (JString ''AWS::S3::Bucket'') 33 48"

definition example_number_type :: astNode where
  "example_number_type = leafOf ''number'' (JNumber 123) 33 36"

text \<open>
  The collaborators of the examples: hover is on, every document has a schema, the
  offsets are those of the template, the cursor is resolved to \<open>node\<close>, and the
  documentation service has a text for every request.
\<close>

definition example_context :: "astNode \<Rightarrow> (unit, unit, unit) hoverContext" where
  "example_context node =
     \<lparr>shouldHover = True,
      getSchemaForResource = (\<lambda>u. Some ()),
      offsetAt = example_offsetAt,
      positionAt = example_positionAt,
      matchOffsetToDocument = (\<lambda>offset doc. Some ()),
      getNodeFromOffset = (\<lambda>currentDoc offset. Some node),
      getPropertyDocumentation = (\<lambda>resourceType propertyName. Some ''The name of the bucket.''),
      getResourceDocumentation = (\<lambda>resourceType. Some ''An Amazon S3 bucket.'')\<rparr>"

section \<open>Properties of validation\<close>

lemma example_validation_run:
  "example_validation =
     [ParseYAML ''Resources:'' customTags, DoValidation example_document (),
      SendDiagnostics ''file:///template.yaml'' example_published]"
  by (simp add: example_validation_def validateTextDocument_def example_document_def Let_def
      example_results_def example_published_def removeDuplicatesObj_def diagnosticKey_def)

lemma foldl_push:
  "foldl (\<lambda>acc x. acc @ [f x]) acc0 xs = acc0 @ map f xs"
  by (induction xs arbitrary: acc0) auto

lemma removeDuplicatesFrom_subset:
  "set (removeDuplicatesFrom seen ds) \<subseteq> set ds"
  by (induction ds arbitrary: seen) auto

lemma removeDuplicatesFrom_keys_fresh:
  "k \<in> set seen \<Longrightarrow> k \<notin> diagnosticKey ` set (removeDuplicatesFrom seen ds)"
proof (induction ds arbitrary: seen)
  case Nil
  then show ?case by simp
next
  case (Cons d ds)
  show ?case
  proof (cases "diagnosticKey d \<in> set seen")
    case True
    with Cons show ?thesis by simp
  next
    case False
    have "k \<noteq> diagnosticKey d" using False Cons.prems by auto
    moreover have "k \<notin> diagnosticKey ` set (removeDuplicatesFrom (diagnosticKey d # seen) ds)"
      using Cons.IH [of "diagnosticKey d # seen"] Cons.prems by simp
    ultimately show ?thesis using False by simp
  qed
qed

lemma removeDuplicatesFrom_distinct:
  "distinct (map diagnosticKey (removeDuplicatesFrom seen ds))"
proof (induction ds arbitrary: seen)
  case Nil
  then show ?case by simp
next
  case (Cons d ds)
  show ?case
  proof (cases "diagnosticKey d \<in> set seen")
    case True
    with Cons show ?thesis by simp
  next
    case False
    have "diagnosticKey d \<notin> diagnosticKey ` set (removeDuplicatesFrom (diagnosticKey d # seen) ds)"
      by (rule removeDuplicatesFrom_keys_fresh) simp
    with False Cons.IH show ?thesis by simp
  qed
qed

lemma sent_diagnostics_cases:
  assumes "SendDiagnostics u ds \<in> set (validateTextDocument isSupportedDocument parseYAML doValidation textDocument)"
  shows "ds = [] \<or>
    (\<exists>td. textDocument = Some td \<and>
      ds = removeDuplicatesObj
             (map (\<lambda>diagnosticItem. diagnosticItem\<lparr>severity := Some 1\<rparr>)
                (doValidation td (parseYAML (getText td) customTags))))"
  using assms
  by (auto simp: validateTextDocument_def Let_def foldl_push split: option.splits if_splits)

lemma normalised_severity:
  assumes "d \<in> set (removeDuplicatesObj
      (map (\<lambda>diagnosticItem. diagnosticItem\<lparr>severity := Some 1\<rparr>) diagnosticResults))"
  shows "severity d = Some 1"
proof -
  have "set (removeDuplicatesObj
      (map (\<lambda>diagnosticItem. diagnosticItem\<lparr>severity := Some 1\<rparr>) diagnosticResults))
    \<subseteq> set (map (\<lambda>diagnosticItem. diagnosticItem\<lparr>severity := Some 1\<rparr>) diagnosticResults)"
    unfolding removeDuplicatesObj_def by (rule removeDuplicatesFrom_subset)
  with assms show ?thesis by auto
qed

lemma removeDuplicatesFrom_unchanged:
  "distinct (map diagnosticKey ds) \<Longrightarrow> diagnosticKey ` set ds \<inter> set seen = {}
     \<Longrightarrow> removeDuplicatesFrom seen ds = ds"
proof (induction ds arbitrary: seen)
  case Nil
  then show ?case by simp
next
  case (Cons d ds)
  from Cons.prems have fresh: "diagnosticKey d \<notin> set seen" by auto
  from Cons.prems have "diagnosticKey ` set ds \<inter> set (diagnosticKey d # seen) = {}"
    by auto
  with Cons.IH [of "diagnosticKey d # seen"] Cons.prems(1)
  have "removeDuplicatesFrom (diagnosticKey d # seen) ds = ds" by simp
  with fresh show ?case by simp
qed

text \<open>
  C1. Whatever list \<open>doValidation\<close> gives, with whatever severities, every diagnostic of
  every list that \<open>validateTextDocument\<close> sends to the editor has severity 1 (error).
\<close>

theorem validateTextDocument_severity_error:
  assumes "SendDiagnostics u ds \<in> set (validateTextDocument isSupportedDocument parseYAML doValidation textDocument)"
    and "d \<in> set ds"
  shows "severity d = Some 1"
proof -
  from sent_diagnostics_cases [OF assms(1)] assms(2)
  obtain td where "d \<in> set (removeDuplicatesObj
      (map (\<lambda>diagnosticItem. diagnosticItem\<lparr>severity := Some 1\<rparr>)
         (doValidation td (parseYAML (getText td) customTags))))"
    by auto
  then show ?thesis by (rule normalised_severity)
qed

theorem validateTextDocument_severity_error_witness:
  "SendDiagnostics ''file:///template.yaml'' example_published \<in> set example_validation
   \<and> hd example_published \<in> set example_published
   \<and> severity (hd example_published) = Some 1"
proof -
  have run: "SendDiagnostics ''file:///template.yaml'' example_published
      \<in> set (validateTextDocument (\<lambda>text. True) (\<lambda>text tags. ()) (\<lambda>td y. example_results)
            (Some example_document))"
    using example_validation_run by (simp add: example_validation_def)
  have mem: "hd example_published \<in> set example_published"
    by (simp add: example_published_def)
  from validateTextDocument_severity_error [OF run mem] run mem
  show ?thesis by (simp add: example_validation_def)
qed

text \<open>
  C2. Every list that \<open>validateTextDocument\<close> sends to the editor holds no two
  diagnostics with the same range and the same message: the keys (range, message) of its
  entries are pairwise different. The published list is a function of the document and
  of what the collaborators give for it, so a second run on unchanged input sends the
  same list; and it is a fixed point of the callback: a run in which the engine reports
  exactly what was published before publishes it again, entry for entry.
\<close>

theorem validateTextDocument_no_duplicates:
  assumes "SendDiagnostics u ds \<in> set (validateTextDocument isSupportedDocument parseYAML doValidation textDocument)"
  shows "distinct (map diagnosticKey ds)
    \<and> removeDuplicatesObj (map (\<lambda>diagnosticItem. diagnosticItem\<lparr>severity := Some 1\<rparr>) ds) = ds"
proof -
  from sent_diagnostics_cases [OF assms]
  have d: "distinct (map diagnosticKey ds)"
    by (auto simp: removeDuplicatesObj_def removeDuplicatesFrom_distinct)
  have "\<And>x. x \<in> set ds \<Longrightarrow> x\<lparr>severity := Some 1\<rparr> = x"
  proof -
    fix x assume "x \<in> set ds"
    with sent_diagnostics_cases [OF assms]
    obtain td where "x \<in> set (removeDuplicatesObj
        (map (\<lambda>diagnosticItem. diagnosticItem\<lparr>severity := Some 1\<rparr>)
           (doValidation td (parseYAML (getText td) customTags))))"
      by auto
    then have "severity x = Some 1" by (rule normalised_severity)
    then show "x\<lparr>severity := Some 1\<rparr> = x" by simp
  qed
  then have "map (\<lambda>diagnosticItem. diagnosticItem\<lparr>severity := Some 1\<rparr>) ds = ds"
    by (simp add: map_idI)
  moreover have "removeDuplicatesFrom [] ds = ds"
    using d by (rule removeDuplicatesFrom_unchanged) simp
  ultimately show ?thesis using d by (simp add: removeDuplicatesObj_def)
qed

theorem validateTextDocument_no_duplicates_witness:
  "SendDiagnostics ''file:///template.yaml'' example_published \<in> set example_validation
   \<and> \<not> distinct (map diagnosticKey example_results)
   \<and> distinct (map diagnosticKey example_published)
   \<and> removeDuplicatesObj
         (map (\<lambda>diagnosticItem. diagnosticItem\<lparr>severity := Some 1\<rparr>) example_published)
       = example_published"
proof -
  have run: "SendDiagnostics ''file:///template.yaml'' example_published
      \<in> set (validateTextDocument (\<lambda>text. True) (\<lambda>text tags. ()) (\<lambda>td y. example_results)
            (Some example_document))"
    using example_validation_run by (simp add: example_validation_def)
  have "\<not> distinct (map diagnosticKey example_results)"
    by (simp add: example_results_def diagnosticKey_def)
  with validateTextDocument_no_duplicates [OF run] run
  show ?thesis by (simp add: example_validation_def)
qed

text \<open>
  C10. For a document whose text is empty, or that the classifier does not recognise as a
  supported template, all that \<open>validateTextDocument\<close> does is send the empty list of
  diagnostics for the document's URI: nothing is parsed and nothing is validated, and
  the editor drops what it showed for that URI before.
\<close>

theorem validateTextDocument_unsupported_clears:
  assumes "getText td = [] \<or> \<not> isSupportedDocument (getText td)"
  shows "validateTextDocument isSupportedDocument parseYAML doValidation (Some td)
           = [SendDiagnostics (uri td) []]"
  using assms by (auto simp: validateTextDocument_def Let_def)

theorem validateTextDocument_unsupported_clears_witness:
  "validateTextDocument (\<lambda>text. True) (\<lambda>text tags. ()) (\<lambda>td y. example_results)
       (Some \<lparr>uri = ''file:///empty.yaml'', getText = ''''\<rparr>)
     = [SendDiagnostics ''file:///empty.yaml'' []]
   \<and> validateTextDocument (\<lambda>text. False) (\<lambda>text tags. ()) (\<lambda>td y. example_results)
       (Some example_document)
     = [SendDiagnostics ''file:///template.yaml'' []]"
proof -
  have a: "getText \<lparr>uri = ''file:///empty.yaml'', getText = ''''\<rparr> = []
      \<or> \<not> (\<lambda>text. True) (getText \<lparr>uri = ''file:///empty.yaml'', getText = ''''\<rparr>)"
    by simp
  have b: "getText example_document = [] \<or> \<not> (\<lambda>text. False) (getText example_document)"
    by simp
  from validateTextDocument_unsupported_clears
      [where isSupportedDocument = "\<lambda>text. True" and parseYAML = "\<lambda>text tags. ()"
         and doValidation = "\<lambda>td y. example_results", OF a]
    validateTextDocument_unsupported_clears
      [where isSupportedDocument = "\<lambda>text. False" and parseYAML = "\<lambda>text tags. ()"
         and doValidation = "\<lambda>td y. example_results", OF b]
  show ?thesis by (simp add: example_document_def)
qed

section \<open>Properties of completion\<close>

lemma skipEOL_le: "skipEOL text e \<le> e"
  by (induction e) auto

lemma skipEOL_length:
  "e \<le> length text \<Longrightarrow> skipEOL text e = length (dropWhile is_EOL (rev (take e text)))"
proof (induction e)
  case 0
  then show ?case by simp
next
  case (Suc e)
  then have e: "e < length text" by simp
  then have "take (Suc e) text = take e text @ [text ! e]"
    by (simp add: take_Suc_conv_app_nth)
  with Suc e show ?case by simp
qed

lemma skipEOL_tail_EOL:
  "e \<le> length text \<Longrightarrow> skipEOL text e \<le> i \<Longrightarrow> i < e \<Longrightarrow> is_EOL (text ! i)"
proof (induction e)
  case 0
  then show ?case by simp
next
  case (Suc e)
  show ?case
  proof (cases "is_EOL (text ! e)")
    case True
    with Suc show ?thesis by (cases "i = e") auto
  next
    case False
    with Suc show ?thesis by auto
  qed
qed

lemma skipEOL_above:
  "i < e \<Longrightarrow> i < length text \<Longrightarrow> \<not> is_EOL (text ! i) \<Longrightarrow> i < skipEOL text e"
proof (induction e)
  case 0
  then show ?case by simp
next
  case (Suc e)
  then show ?case by (cases "i = e") auto
qed

lemma js_substring_slice:
  "a \<le> b \<Longrightarrow> b \<le> length s \<Longrightarrow> js_substring s a b = take (b - a) (drop a s)"
  by (simp add: js_substring_def Let_def min_def max_def)

lemma js_substring_mem:
  "a \<le> i \<Longrightarrow> i < b \<Longrightarrow> i < length s \<Longrightarrow> s ! i \<in> set (js_substring s a b)"
proof -
  assume a: "a \<le> i" and b: "i < b" and l: "i < length s"
  let ?a = "min a (length s)" and ?b = "min b (length s)"
  have ab: "?a \<le> i" "i < ?b" using a b l by auto
  then have "js_substring s a b = take (?b - ?a) (drop ?a s)"
    by (simp add: js_substring_def Let_def min_def max_def)
  moreover have "s ! i = take (?b - ?a) (drop ?a s) ! (i - ?a)"
    using ab l by simp
  moreover have "i - ?a < length (take (?b - ?a) (drop ?a s))"
    using ab l by auto
  ultimately show ?thesis by (metis nth_mem)
qed

lemma cursorLine_colon_textLine:
  assumes "CHR '':'' \<in> set (cursorLine lineOffset linePos text)"
  shows "CHR '':'' \<in> set (textLineAt lineOffset linePos text)"
proof -
  from assms obtain lstart where st: "js_index lineOffset linePos = Some lstart"
    by (cases "js_index lineOffset linePos") (auto simp: cursorLine_def)
  let ?next = "nextLineOffset lineOffset linePos text"
  from assms st have "CHR '':'' \<in> set (take (?next - lstart) (drop lstart text))"
    by (simp add: cursorLine_def)
  then obtain k where k: "k < length (take (?next - lstart) (drop lstart text))"
      "take (?next - lstart) (drop lstart text) ! k = CHR '':''"
    by (auto simp: in_set_conv_nth)
  let ?i = "lstart + k"
  have i: "lstart \<le> ?i" "?i < ?next" "?i < length text" "text ! ?i = CHR '':''"
    using k by auto
  have "\<not> is_EOL (text ! ?i)" using i(4) by (simp add: is_EOL_def)
  with i have "?i < skipEOL text ?next" by (intro skipEOL_above) auto
  with i have "text ! ?i \<in> set (js_substring text lstart (skipEOL text ?next))"
    by (intro js_substring_mem) auto
  with i(4) st show ?thesis by (simp add: textLineAt_def)
qed

text \<open>
  C3. When the line of the cursor contains a colon, \<open>completionHelper\<close> returns the text
  of the document as it is, and the position it was given with the column one less (the
  line is the same). This holds for every table of line offsets, and also for column 0,
  which becomes -1.
\<close>

theorem completionHelper_delimiter_line:
  assumes "CHR '':'' \<in> set (cursorLine (getLineOffsets (getText document)) (line pos) (getText document))"
  shows "completionHelper getLineOffsets document pos =
           \<lparr>newText = getText document, newPosition = pos\<lparr>character := character pos - 1\<rparr>\<rparr>"
  using cursorLine_colon_textLine [OF assms]
  by (simp add: completionHelper_def Let_def)


theorem completionHelper_delimiter_line_witness:
  "CHR '':'' \<in> set (cursorLine example_lineOffsets 2 (getText example_template))
   \<and> completionHelper (\<lambda>t. example_lineOffsets) example_template \<lparr>line = 2, character = 9\<rparr>
       = \<lparr>newText = getText example_template, newPosition = \<lparr>line = 2, character = 8\<rparr>\<rparr>"
proof -
  have h: "CHR '':'' \<in> set (cursorLine ((\<lambda>t. example_lineOffsets) (getText example_template))
      (line \<lparr>line = 2, character = 9\<rparr>) (getText example_template))"
    by code_simp
  from completionHelper_delimiter_line [OF h] h show ?thesis by simp
qed

lemma rev_dropWhile_rev_take:
  "rev (dropWhile P (rev xs)) = take (length (dropWhile P (rev xs))) xs"
proof (induction xs rule: rev_induct)
  case Nil
  then show ?case by simp
next
  case (snoc x xs)
  have "length (dropWhile P (rev xs)) \<le> length xs"
    using length_dropWhile_le [of P "rev xs"] by simp
  with snoc show ?case by simp
qed

lemma visibleLine_length_le:
  "length (visibleLine lineOffset linePos text) \<le> length (cursorLine lineOffset linePos text)"
  unfolding visibleLine_def
  by (metis length_dropWhile_le length_rev)

lemma visibleLine_take:
  "visibleLine lineOffset linePos text =
     take (length (visibleLine lineOffset linePos text)) (cursorLine lineOffset linePos text)"
  unfolding visibleLine_def by (metis length_rev rev_dropWhile_rev_take)

lemma textLineAt_visible:
  assumes st: "js_index lineOffset linePos = Some lstart"
    and le: "lstart \<le> nextLineOffset lineOffset linePos text"
      "nextLineOffset lineOffset linePos text \<le> length text"
    and vis: "visibleLine lineOffset linePos text \<noteq> [] \<or> lstart = 0"
  shows "textLineAt lineOffset linePos text = visibleLine lineOffset linePos text"
proof -
  let ?next = "nextLineOffset lineOffset linePos text"
  let ?cl = "cursorLine lineOffset linePos text"
  let ?vis = "visibleLine lineOffset linePos text"
  have cl: "?cl = take (?next - lstart) (drop lstart text)"
    using st by (simp add: cursorLine_def)
  have "take (lstart + (?next - lstart)) text = take lstart text @ ?cl"
    unfolding cl by (rule take_add)
  then have split: "take ?next text = take lstart text @ ?cl" using le by simp
  have len: "skipEOL text ?next = lstart + length ?vis"
  proof (cases "?vis = []")
    case True
    with vis have s0: "lstart = 0" by simp
    from True have "dropWhile is_EOL (rev ?cl) = []" by (simp add: visibleLine_def)
    with s0 split le show ?thesis
      by (simp add: skipEOL_length visibleLine_def)
  next
    case False
    then have "dropWhile is_EOL (rev ?cl) \<noteq> []" by (simp add: visibleLine_def)
    then obtain x where x: "x \<in> set (rev ?cl)" "\<not> is_EOL x"
      by (auto simp: dropWhile_eq_Nil_conv)
    have "dropWhile is_EOL (rev ?cl @ rev (take lstart text))
        = dropWhile is_EOL (rev ?cl) @ rev (take lstart text)"
      using x by (rule dropWhile_append1)
    with split le show ?thesis
      by (simp add: skipEOL_length visibleLine_def)
  qed
  have vl: "length ?vis \<le> ?next - lstart"
    using visibleLine_length_le [of lineOffset linePos "text"] cl by simp
  have "textLineAt lineOffset linePos text = js_substring text lstart (lstart + length ?vis)"
    using st len by (simp add: textLineAt_def)
  also have "\<dots> = take (length ?vis) (drop lstart text)"
    using vl le by (simp add: js_substring_slice)
  also have "\<dots> = take (length ?vis) ?cl"
    unfolding cl using vl by (simp add: min_def)
  also have "\<dots> = ?vis" using visibleLine_take [of lineOffset linePos "text"] by simp
  finally show ?thesis .
qed

lemma textLineAt_at_end:
  assumes st: "js_index lineOffset linePos = Some (length text)"
    and nx: "nextLineOffset lineOffset linePos text = length text"
  shows "\<forall>c \<in> set (textLineAt lineOffset linePos text). is_EOL c"
proof -
  let ?e = "skipEOL text (length text)"
  have e: "?e \<le> length text" by (rule skipEOL_le)
  have tl: "textLineAt lineOffset linePos text = drop ?e text"
    using st nx e by (simp add: textLineAt_def js_substring_def Let_def min_def max_def)
  show ?thesis
  proof
    fix c assume "c \<in> set (textLineAt lineOffset linePos text)"
    then obtain k where k: "k < length (drop ?e text)" "drop ?e text ! k = c"
      unfolding tl by (auto simp: in_set_conv_nth)
    then have "c = text ! (?e + k)" "?e + k < length text" by auto
    with skipEOL_tail_EOL [of "length text" "text" "?e + k"] show "is_EOL c" by simp
  qed
qed

lemma js_trim_blank:
  "\<forall>c \<in> set s. isWhiteSpace c \<Longrightarrow> js_trim s = []"
proof -
  assume "\<forall>c \<in> set s. isWhiteSpace c"
  then have h: "dropWhile isWhiteSpace s = []" by simp
  show ?thesis by (simp only: js_trim_def h rev.simps dropWhile.simps)
qed

lemma is_EOL_isWhiteSpace: "is_EOL c \<Longrightarrow> isWhiteSpace c"
  by (auto simp: is_EOL_def isWhiteSpace_def)

lemma completionHelper_no_delimiter:
  assumes st: "js_index (getLineOffsets (getText document)) (line pos) = Some lstart"
    and nocolon: "CHR '':'' \<notin> set (textLineAt (getLineOffsets (getText document)) (line pos) (getText document))"
  shows "completionHelper getLineOffsets document pos =
     \<lparr>newText =
        js_substring (getText document) 0
          (lstart + length (textLineAt (getLineOffsets (getText document)) (line pos) (getText document)))
        @ lineRepair (textLineAt (getLineOffsets (getText document)) (line pos) (getText document))
        @ drop (nextLineOffset (getLineOffsets (getText document)) (line pos) (getText document))
            (getText document),
      newPosition = pos\<rparr>"
proof -
  let ?T = "js_trim (textLineAt (getLineOffsets (getText document)) (line pos) (getText document))"
  consider (blank) "?T = []" | (dash) "?T = ''-''" | (other) "?T \<noteq> []" "?T \<noteq> ''-''"
    by blast
  then show ?thesis
  proof cases
    case blank
    then show ?thesis using st nocolon
      by (simp add: completionHelper_def Let_def lineRepair_def js_substr_def js_index_def)
  next
    case dash
    then show ?thesis using st nocolon
      by (simp add: completionHelper_def Let_def lineRepair_def js_substr_def js_index_def)
  next
    case other
    then have "\<not> (length ?T = 1 \<and> ?T ! 0 = CHR ''-'')"
      by (cases ?T) auto
    with other show ?thesis using st nocolon
      by (simp add: completionHelper_def Let_def lineRepair_def js_substr_def)
  qed
qed

text \<open>
  C4, as the code has it. The line of the cursor is in the table of line offsets, the
  table orders it before the next line within the text, and the line has no colon. Unless
  the line has no visible content and starts after the first and before the last offset
  of the text, \<open>completionHelper\<close> returns the text before the line, the visible
  content of the line, the repair of the line, and the text from the next line on, with
  the position it was given. The repair is \<open>holder:\<close> for a line whose trimmed content
  is empty or the marker \<open>-\<close> (with a space before it when the marker is not followed by
  one), and the colon for every other line; CR LF follows it and stands in the place of
  the line's own terminator, which is not kept.
\<close>

theorem completionHelper_repair:
  assumes st: "js_index (getLineOffsets (getText document)) (line pos) = Some lstart"
    and le: "lstart \<le> nextLineOffset (getLineOffsets (getText document)) (line pos) (getText document)"
      "nextLineOffset (getLineOffsets (getText document)) (line pos) (getText document)
         \<le> length (getText document)"
    and nocolon: "CHR '':'' \<notin> set (visibleLine (getLineOffsets (getText document)) (line pos) (getText document))"
    and vis: "visibleLine (getLineOffsets (getText document)) (line pos) (getText document) \<noteq> []
         \<or> lstart = 0 \<or> lstart = length (getText document)"
  shows "completionHelper getLineOffsets document pos =
           \<lparr>newText = take lstart (getText document)
                @ visibleLine (getLineOffsets (getText document)) (line pos) (getText document)
                @ lineRepair (visibleLine (getLineOffsets (getText document)) (line pos) (getText document))
                @ drop (nextLineOffset (getLineOffsets (getText document)) (line pos) (getText document))
                    (getText document),
            newPosition = pos\<rparr>"
proof -
  define doctext where "doctext = getText document"
  define lineOffset where "lineOffset = getLineOffsets (getText document)"
  define vl where "vl = visibleLine lineOffset (line pos) doctext"
  define tline where "tline = textLineAt lineOffset (line pos) doctext"
  define nxt where "nxt = nextLineOffset lineOffset (line pos) doctext"
  note defs = doctext_def lineOffset_def vl_def tline_def nxt_def
  have st': "js_index lineOffset (line pos) = Some lstart" using st by (simp add: defs)
  have le': "lstart \<le> nxt" "nxt \<le> length doctext" using le by (simp_all add: defs)
  have key: "CHR '':'' \<notin> set tline \<and> js_substring doctext 0 (lstart + length tline) = take lstart doctext @ vl
      \<and> lineRepair tline = lineRepair vl"
  proof (cases "vl \<noteq> [] \<or> lstart = 0")
    case True
    have tleq: "tline = vl"
      unfolding tline_def vl_def nxt_def
      using st' le' True unfolding vl_def nxt_def by (rule textLineAt_visible)
    have len: "length vl \<le> nxt - lstart"
      using visibleLine_length_le [of lineOffset "line pos" doctext] st'
      by (simp add: cursorLine_def vl_def nxt_def)
    have "vl = take (length vl) (drop lstart doctext)"
      using visibleLine_take [of lineOffset "line pos" doctext] st' len
      by (simp add: cursorLine_def min_def vl_def nxt_def)
    then have "take (lstart + length vl) doctext = take lstart doctext @ vl"
      by (simp add: take_add)
    then have "js_substring doctext 0 (lstart + length vl) = take lstart doctext @ vl"
      using len le' by (simp add: js_substring_slice)
    with tleq nocolon show ?thesis by (simp add: defs)
  next
    case False
    with vis have v: "vl = []" and s: "lstart = length doctext" by (auto simp: defs)
    with le' have nx: "nxt = length doctext" by simp
    have eol: "\<forall>c \<in> set tline. is_EOL c"
      unfolding tline_def using st' nx unfolding s nxt_def by (rule textLineAt_at_end)
    have nc: "CHR '':'' \<notin> set tline"
    proof
      assume "CHR '':'' \<in> set tline"
      with eol have "is_EOL CHR '':''" by blast
      then show False by (simp add: is_EOL_def)
    qed
    have "\<forall>c \<in> set tline. isWhiteSpace c"
      using eol is_EOL_isWhiteSpace by blast
    then have tr: "js_trim tline = []" by (rule js_trim_blank)
    have trv: "js_trim vl = []" unfolding v by (simp add: js_trim_def)
    have sub: "js_substring doctext 0 (lstart + length tline) = doctext"
      unfolding s by (simp add: js_substring_def Let_def)
    have rep: "lineRepair tline = lineRepair vl"
      unfolding lineRepair_def tr trv by simp
    show ?thesis using nc sub rep v s by simp
  qed
  have "completionHelper getLineOffsets document pos =
     \<lparr>newText = js_substring doctext 0 (lstart + length tline) @ lineRepair tline @ drop nxt doctext,
      newPosition = pos\<rparr>"
    unfolding defs using st key by (intro completionHelper_no_delimiter) (simp_all add: defs)
  with key show ?thesis by (simp add: defs)
qed

theorem completionHelper_repair_witness:
  "js_index [0, 3 :: nat] 1 = Some 3
   \<and> 3 \<le> nextLineOffset [0, 3] 1 (''a:'' @ [CHR 0x0A] @ ''  -'')
   \<and> nextLineOffset [0, 3] 1 (''a:'' @ [CHR 0x0A] @ ''  -'') \<le> length (''a:'' @ [CHR 0x0A] @ ''  -'')
   \<and> CHR '':'' \<notin> set (visibleLine [0, 3] 1 (''a:'' @ [CHR 0x0A] @ ''  -''))
   \<and> visibleLine [0, 3] 1 (''a:'' @ [CHR 0x0A] @ ''  -'') \<noteq> []
   \<and> completionHelper (\<lambda>t. [0, 3])
         \<lparr>uri = ''file:///t.yaml'', getText = ''a:'' @ [CHR 0x0A] @ ''  -''\<rparr>
         \<lparr>line = 1, character = 3\<rparr>
       = \<lparr>newText = ''a:'' @ [CHR 0x0A] @ ''  - holder:'' @ [CHR 0x0D, CHR 0x0A],
          newPosition = \<lparr>line = 1, character = 3\<rparr>\<rparr>
   \<and> js_index [0, 3 :: nat] 0 = Some 0
   \<and> 0 \<le> nextLineOffset [0, 3] 0 (''ab'' @ [CHR 0x0A] @ ''cd'')
   \<and> nextLineOffset [0, 3] 0 (''ab'' @ [CHR 0x0A] @ ''cd'') \<le> length (''ab'' @ [CHR 0x0A] @ ''cd'')
   \<and> CHR '':'' \<notin> set (visibleLine [0, 3] 0 (''ab'' @ [CHR 0x0A] @ ''cd''))
   \<and> visibleLine [0, 3] 0 (''ab'' @ [CHR 0x0A] @ ''cd'') \<noteq> []
   \<and> completionHelper (\<lambda>t. [0, 3])
         \<lparr>uri = ''file:///t.yaml'', getText = ''ab'' @ [CHR 0x0A] @ ''cd''\<rparr>
         \<lparr>line = 0, character = 2\<rparr>
       = \<lparr>newText = ''ab:'' @ [CHR 0x0D, CHR 0x0A] @ ''cd'',
          newPosition = \<lparr>line = 0, character = 2\<rparr>\<rparr>"
proof -
  define g where "g = (\<lambda>t :: string. [0 :: nat, 3])"
  define d where "d = \<lparr>uri = ''file:///t.yaml'', getText = ''a:'' @ [CHR 0x0A] @ ''  -''\<rparr>"
  define p where "p = \<lparr>line = 1, character = 3\<rparr>"
  have st: "js_index (g (getText d)) (line p) = Some 3"
    unfolding d_def p_def g_def by code_simp
  have le1: "3 \<le> nextLineOffset (g (getText d)) (line p) (getText d)"
    unfolding d_def p_def g_def by code_simp
  have le2: "nextLineOffset (g (getText d)) (line p) (getText d) \<le> length (getText d)"
    unfolding d_def p_def g_def by code_simp
  have nc: "CHR '':'' \<notin> set (visibleLine (g (getText d)) (line p) (getText d))"
    unfolding d_def p_def g_def by code_simp
  have ne: "visibleLine (g (getText d)) (line p) (getText d) \<noteq> []"
    unfolding d_def p_def g_def by code_simp
  then have vis: "visibleLine (g (getText d)) (line p) (getText d) \<noteq> []
      \<or> (3 :: nat) = 0 \<or> 3 = length (getText d)"
    by simp
  have ev: "take 3 (getText d) @ visibleLine (g (getText d)) (line p) (getText d)
      @ lineRepair (visibleLine (g (getText d)) (line p) (getText d))
      @ drop (nextLineOffset (g (getText d)) (line p) (getText d)) (getText d)
      = ''a:'' @ [CHR 0x0A] @ ''  - holder:'' @ [CHR 0x0D, CHR 0x0A]"
    unfolding d_def p_def g_def by code_simp
  have holder: "completionHelper g d p =
      \<lparr>newText = ''a:'' @ [CHR 0x0A] @ ''  - holder:'' @ [CHR 0x0D, CHR 0x0A], newPosition = p\<rparr>"
    using completionHelper_repair
        [where getLineOffsets = g and document = d and pos = p and lstart = 3,
         OF st le1 le2 nc vis] ev
    by simp
  define d' where "d' = \<lparr>uri = ''file:///t.yaml'', getText = ''ab'' @ [CHR 0x0A] @ ''cd''\<rparr>"
  define p' where "p' = \<lparr>line = 0, character = 2\<rparr>"
  have st': "js_index (g (getText d')) (line p') = Some 0"
    unfolding d'_def p'_def g_def by code_simp
  have le1': "0 \<le> nextLineOffset (g (getText d')) (line p') (getText d')"
    by simp
  have le2': "nextLineOffset (g (getText d')) (line p') (getText d') \<le> length (getText d')"
    unfolding d'_def p'_def g_def by code_simp
  have nc': "CHR '':'' \<notin> set (visibleLine (g (getText d')) (line p') (getText d'))"
    unfolding d'_def p'_def g_def by code_simp
  have ne': "visibleLine (g (getText d')) (line p') (getText d') \<noteq> []"
    unfolding d'_def p'_def g_def by code_simp
  then have vis': "visibleLine (g (getText d')) (line p') (getText d') \<noteq> []
      \<or> (0 :: nat) = 0 \<or> 0 = length (getText d')"
    by simp
  have ev': "take 0 (getText d') @ visibleLine (g (getText d')) (line p') (getText d')
      @ lineRepair (visibleLine (g (getText d')) (line p') (getText d'))
      @ drop (nextLineOffset (g (getText d')) (line p') (getText d')) (getText d')
      = ''ab:'' @ [CHR 0x0D, CHR 0x0A] @ ''cd''"
    unfolding d'_def p'_def g_def by code_simp
  have colon: "completionHelper g d' p' =
      \<lparr>newText = ''ab:'' @ [CHR 0x0D, CHR 0x0A] @ ''cd'', newPosition = p'\<rparr>"
    using completionHelper_repair
        [where getLineOffsets = g and document = d' and pos = p' and lstart = 0,
         OF st' le1' le2' nc' vis'] ev'
    by simp
  from st le1 le2 nc ne holder have first:
    "js_index [0, 3 :: nat] 1 = Some 3
     \<and> 3 \<le> nextLineOffset [0, 3] 1 (''a:'' @ [CHR 0x0A] @ ''  -'')
     \<and> nextLineOffset [0, 3] 1 (''a:'' @ [CHR 0x0A] @ ''  -'') \<le> length (''a:'' @ [CHR 0x0A] @ ''  -'')
     \<and> CHR '':'' \<notin> set (visibleLine [0, 3] 1 (''a:'' @ [CHR 0x0A] @ ''  -''))
     \<and> visibleLine [0, 3] 1 (''a:'' @ [CHR 0x0A] @ ''  -'') \<noteq> []
     \<and> completionHelper (\<lambda>t. [0, 3])
           \<lparr>uri = ''file:///t.yaml'', getText = ''a:'' @ [CHR 0x0A] @ ''  -''\<rparr>
           \<lparr>line = 1, character = 3\<rparr>
         = \<lparr>newText = ''a:'' @ [CHR 0x0A] @ ''  - holder:'' @ [CHR 0x0D, CHR 0x0A],
            newPosition = \<lparr>line = 1, character = 3\<rparr>\<rparr>"
    unfolding d_def p_def g_def by simp
  from st' le1' le2' nc' ne' colon have second:
    "js_index [0, 3 :: nat] 0 = Some 0
     \<and> 0 \<le> nextLineOffset [0, 3] 0 (''ab'' @ [CHR 0x0A] @ ''cd'')
     \<and> nextLineOffset [0, 3] 0 (''ab'' @ [CHR 0x0A] @ ''cd'') \<le> length (''ab'' @ [CHR 0x0A] @ ''cd'')
     \<and> CHR '':'' \<notin> set (visibleLine [0, 3] 0 (''ab'' @ [CHR 0x0A] @ ''cd''))
     \<and> visibleLine [0, 3] 0 (''ab'' @ [CHR 0x0A] @ ''cd'') \<noteq> []
     \<and> completionHelper (\<lambda>t. [0, 3])
           \<lparr>uri = ''file:///t.yaml'', getText = ''ab'' @ [CHR 0x0A] @ ''cd''\<rparr>
           \<lparr>line = 0, character = 2\<rparr>
         = \<lparr>newText = ''ab:'' @ [CHR 0x0D, CHR 0x0A] @ ''cd'',
            newPosition = \<lparr>line = 0, character = 2\<rparr>\<rparr>"
    unfolding d'_def p'_def g_def by simp
  from first second show ?thesis by (simp only: simp_thms)
qed

text \<open>
  As the specification words it, the property fails on a line that ends with LF: for the text of the two
  lines \<open>ab\<close> and \<open>cd\<close> and the cursor on the first, the colon spliced in at the end of
  the visible content gives \<open>ab:\<close>, LF, \<open>cd\<close>, and \<open>completionHelper\<close> gives \<open>ab:\<close>,
  CR, LF, \<open>cd\<close>.
\<close>

theorem completionHelper_splice_counterexample:
  "newText (completionHelper (\<lambda>t. [0, 3])
       \<lparr>uri = ''file:///t.yaml'', getText = ''ab'' @ [CHR 0x0A] @ ''cd''\<rparr>
       \<lparr>line = 0, character = 2\<rparr>)
     = ''ab:'' @ [CHR 0x0D, CHR 0x0A] @ ''cd''
   \<and> spliceAt (''ab'' @ [CHR 0x0A] @ ''cd'')
         (length (visibleLine [0, 3] 0 (''ab'' @ [CHR 0x0A] @ ''cd''))) '':''
     = ''ab:'' @ [CHR 0x0A] @ ''cd''
   \<and> newText (completionHelper (\<lambda>t. [0, 3])
       \<lparr>uri = ''file:///t.yaml'', getText = ''ab'' @ [CHR 0x0A] @ ''cd''\<rparr>
       \<lparr>line = 0, character = 2\<rparr>)
     \<noteq> spliceAt (''ab'' @ [CHR 0x0A] @ ''cd'')
         (length (visibleLine [0, 3] 0 (''ab'' @ [CHR 0x0A] @ ''cd''))) '':''"
  by code_simp

text \<open>
  The case that the theorem leaves out: a line without visible content between other
  lines. The loop that strips the line ends does not stop at the start of the line and
  goes on through the line ends before it. After one line end, the placeholder comes
  after the terminator of the blank line, at the start of the next line; after two, it
  lands inside the next line, whose first character is doubled.
\<close>

lemma completionHelper_blank_line_overrun:
  "newText (completionHelper (\<lambda>t. [0, 3, 4])
       \<lparr>uri = ''file:///t.yaml'', getText = ''a:'' @ [CHR 0x0A, CHR 0x0A] @ ''b:''\<rparr>
       \<lparr>line = 1, character = 0\<rparr>)
     = ''a:'' @ [CHR 0x0A, CHR 0x0A] @ ''holder:'' @ [CHR 0x0D, CHR 0x0A] @ ''b:''
   \<and> newText (completionHelper (\<lambda>t. [0, 3, 4, 5])
       \<lparr>uri = ''file:///t.yaml'', getText = ''a:'' @ [CHR 0x0A, CHR 0x0A, CHR 0x0A] @ ''b:''\<rparr>
       \<lparr>line = 2, character = 0\<rparr>)
     = ''a:'' @ [CHR 0x0A, CHR 0x0A, CHR 0x0A] @ ''bholder:'' @ [CHR 0x0D, CHR 0x0A] @ ''b:''"
  by code_simp

section \<open>Properties of hover\<close>

lemma doHover_resolved:
  assumes "shouldHover this"
    and "getSchemaForResource this (uri d) = Some schema"
    and "matchOffsetToDocument this (offsetAt this d position) doc = Some currentDoc"
    and "getNodeFromOffset this currentDoc (offsetAt this d position) = Some node"
    and "\<not> insideContainer node (offsetAt this d position)"
    and "2 \<le> length (getPath node)"
  shows "doHover this (Some d) position doc =
     (case getResourceName node of
        Inl e \<Rightarrow> Inl e
      | Inr None \<Rightarrow> Inr noHover
      | Inr (Some resourceType) \<Rightarrow>
          Inr (hoverFor (documentationRequest (getPath node) resourceType)
                 (askDocumentation this (documentationRequest (getPath node) resourceType))
                 (Range_create (positionAt this d (start node)) (positionAt this d (end' node)))))"
proof (cases "getResourceName node")
  case (Inl e)
  with assms show ?thesis
    by (auto simp: doHover_def insideContainer_def Let_def)
next
  case (Inr found)
  show ?thesis
  proof (cases found)
    case None
    with Inr assms show ?thesis
      by (auto simp: doHover_def insideContainer_def Let_def)
  next
    case (Some resourceType)
    show ?thesis
    proof (cases "getPropertyName node")
      case None
      then have "documentationRequest (getPath node) resourceType
          = GetResourceDocumentation resourceType"
        by (auto simp: getPropertyName_def documentationRequest_def Let_def split: if_splits)
      with None Some Inr assms show ?thesis
        by (auto simp: doHover_def insideContainer_def Let_def askDocumentation_def)
    next
      case (Some propertyName)
      then have p: "length (getPath node) \<ge> 4 \<and> getPath node ! 0 = Key ''Resources''
          \<and> getPath node ! 2 = Key ''Properties''" "propertyName = getPath node ! 3"
        by (auto simp: getPropertyName_def Let_def split: if_splits)
      then have "documentationRequest (getPath node) resourceType
          = (if truthy_segment propertyName
             then GetPropertyDocumentation resourceType (String propertyName)
             else GetResourceDocumentation resourceType)"
        by (simp add: documentationRequest_def)
      with Some \<open>found = Some resourceType\<close> Inr assms show ?thesis
        by (auto simp: doHover_def insideContainer_def Let_def askDocumentation_def)
    qed
  qed
qed

lemma getResourceName_path:
  assumes "getResourceName node = Inr (Some resourceType)"
  shows "js_index (getPath node) 0 = Some (Key ''Resources'') \<and> 1 < length (getPath node)"
  using assms by (auto simp: getResourceName_def Let_def split: if_splits)

text \<open>
  C5. When the node that the offset resolves to is an object or an array, and the offset
  is greater than its start plus one and less than its end minus one, \<open>doHover\<close>
  returns no hover and asks the documentation service nothing.
\<close>

theorem doHover_inside_container:
  assumes "matchOffsetToDocument this (offsetAt this d position) doc = Some currentDoc"
    and "getNodeFromOffset this currentDoc (offsetAt this d position) = Some node"
    and "type node = ''object'' \<or> type node = ''array''"
    and "start node + 1 < offsetAt this d position"
    and "offsetAt this d position < end' node - 1"
  shows "doHover this (Some d) position doc = Inr noHover"
  using assms by (simp add: doHover_def Let_def split: option.splits)

theorem doHover_inside_container_witness:
  "matchOffsetToDocument (example_context (example_bucket example_bucket_type))
       (offsetAt (example_context (example_bucket example_bucket_type)) example_template
          \<lparr>line = 3, character = 1\<rparr>) () = Some ()
   \<and> getNodeFromOffset (example_context (example_bucket example_bucket_type)) ()
       (offsetAt (example_context (example_bucket example_bucket_type)) example_template
          \<lparr>line = 3, character = 1\<rparr>) = Some (example_bucket example_bucket_type)
   \<and> type (example_bucket example_bucket_type) = ''object''
   \<and> start (example_bucket example_bucket_type) + 1
       < offsetAt (example_context (example_bucket example_bucket_type)) example_template
          \<lparr>line = 3, character = 1\<rparr>
   \<and> offsetAt (example_context (example_bucket example_bucket_type)) example_template
          \<lparr>line = 3, character = 1\<rparr>
       < end' (example_bucket example_bucket_type) - 1
   \<and> doHover (example_context (example_bucket example_bucket_type)) (Some example_template)
       \<lparr>line = 3, character = 1\<rparr> () = Inr noHover"
proof -
  define node where "node = example_bucket example_bucket_type"
  define this where "this = example_context node"
  define p where "p = \<lparr>line = 3, character = 1 :: int\<rparr>"
  have m: "matchOffsetToDocument this (offsetAt this example_template p) () = Some ()"
    unfolding this_def node_def p_def by code_simp
  have n: "getNodeFromOffset this () (offsetAt this example_template p) = Some node"
    unfolding this_def node_def p_def by code_simp
  have t: "type node = ''object''"
    unfolding node_def by code_simp
  then have t': "type node = ''object'' \<or> type node = ''array''" by simp
  have s: "start node + 1 < offsetAt this example_template p"
    unfolding this_def node_def p_def by code_simp
  have e: "offsetAt this example_template p < end' node - 1"
    unfolding this_def node_def p_def by code_simp
  from doHover_inside_container [OF m n t' s e] m n t s e
  show ?thesis unfolding this_def node_def p_def by simp
qed

text \<open>
  C9. When the schema service has no schema for the URI of the document, \<open>doHover\<close>
  returns no hover: it raises nothing and asks the documentation service nothing.
\<close>

theorem doHover_no_schema:
  assumes "getSchemaForResource this (uri d) = None"
  shows "doHover this (Some d) position doc = Inr noHover"
  using assms by (simp add: doHover_def)

theorem doHover_no_schema_witness:
  "getSchemaForResource
       ((example_context (example_name_value example_bucket_type ''BucketName''))
          \<lparr>getSchemaForResource := (\<lambda>u. None)\<rparr>) (uri example_template) = None
   \<and> doHover
       ((example_context (example_name_value example_bucket_type ''BucketName''))
          \<lparr>getSchemaForResource := (\<lambda>u. None)\<rparr>)
       (Some example_template) \<lparr>line = 4, character = 18\<rparr> () = Inr noHover"
proof -
  have h: "getSchemaForResource
       ((example_context (example_name_value example_bucket_type ''BucketName''))
          \<lparr>getSchemaForResource := (\<lambda>u. None)\<rparr>) (uri example_template) = None"
    by simp
  from doHover_no_schema [OF h] h show ?thesis by simp
qed

text \<open>
  C6, as the code has it. For a node that \<open>doHover\<close> resolves (hover is on, the
  document has a schema, the offset has a node, and the offset is not in the body of a
  container) and whose resource type is determined: when the path of the node has at
  least four segments, the first \<open>Resources\<close>, the third \<open>Properties\<close>, and the fourth
  is truthy (neither the empty key nor the index 0), \<open>doHover\<close> asks for the
  documentation of the property named by the fourth segment of that resource type;
  otherwise it asks for the documentation of the resource type. That is its only request,
  and the hover it returns carries the answer, when the answer is truthy.
\<close>

theorem doHover_documentation_request:
  assumes "shouldHover this"
    and "getSchemaForResource this (uri d) = Some schema"
    and "matchOffsetToDocument this (offsetAt this d position) doc = Some currentDoc"
    and "getNodeFromOffset this currentDoc (offsetAt this d position) = Some node"
    and "\<not> insideContainer node (offsetAt this d position)"
    and "getResourceName node = Inr (Some resourceType)"
  shows "doHover this (Some d) position doc =
     Inr (hoverFor (documentationRequest (getPath node) resourceType)
            (askDocumentation this (documentationRequest (getPath node) resourceType))
            (Range_create (positionAt this d (start node)) (positionAt this d (end' node))))"
proof -
  from getResourceName_path [OF assms(6)] have "2 \<le> length (getPath node)" by simp
  from doHover_resolved [OF assms(1-5) this] assms(6) show ?thesis by simp
qed

theorem doHover_documentation_request_witness:
  "shouldHover (example_context (example_name_value example_bucket_type ''BucketName''))
   \<and> getSchemaForResource (example_context (example_name_value example_bucket_type ''BucketName''))
       (uri example_template) = Some ()
   \<and> \<not> insideContainer (example_name_value example_bucket_type ''BucketName'')
         (offsetAt (example_context (example_name_value example_bucket_type ''BucketName''))
            example_template \<lparr>line = 4, character = 18\<rparr>)
   \<and> getResourceName (example_name_value example_bucket_type ''BucketName'')
       = Inr (Some (JString ''AWS::S3::Bucket''))
   \<and> doHover (example_context (example_name_value example_bucket_type ''BucketName''))
       (Some example_template) \<lparr>line = 4, character = 18\<rparr> ()
     = Inr (hoverFor
         (GetPropertyDocumentation (JString ''AWS::S3::Bucket'') ''BucketName'')
         (Some ''The name of the bucket.'')
         (Range_create \<lparr>line = 4, character = 18\<rparr> \<lparr>line = 4, character = 19\<rparr>))"
proof -
  define node where "node = example_name_value example_bucket_type ''BucketName''"
  define this where "this = example_context node"
  define p where "p = \<lparr>line = 4, character = 18 :: int\<rparr>"
  have h: "shouldHover this"
    unfolding this_def by code_simp
  have s: "getSchemaForResource this (uri example_template) = Some ()"
    unfolding this_def by code_simp
  have m: "matchOffsetToDocument this (offsetAt this example_template p) () = Some ()"
    unfolding this_def p_def by code_simp
  have n: "getNodeFromOffset this () (offsetAt this example_template p) = Some node"
    unfolding this_def p_def by code_simp
  have c: "\<not> insideContainer node (offsetAt this example_template p)"
    unfolding this_def node_def p_def by code_simp
  have r: "getResourceName node = Inr (Some (JString ''AWS::S3::Bucket''))"
    unfolding node_def by code_simp
  have q: "documentationRequest (getPath node) (JString ''AWS::S3::Bucket'')
      = GetPropertyDocumentation (JString ''AWS::S3::Bucket'') ''BucketName''"
    unfolding node_def by code_simp
  have a: "askDocumentation this
        (GetPropertyDocumentation (JString ''AWS::S3::Bucket'') ''BucketName'')
      = Some ''The name of the bucket.''"
    unfolding this_def by code_simp
  have g: "Range_create (positionAt this example_template (start node))
        (positionAt this example_template (end' node))
      = Range_create \<lparr>line = 4, character = 18\<rparr> \<lparr>line = 4, character = 19\<rparr>"
    unfolding this_def node_def by code_simp
  from doHover_documentation_request [OF h s m n c r]
  have "doHover this (Some example_template) p () =
      Inr (hoverFor
         (GetPropertyDocumentation (JString ''AWS::S3::Bucket'') ''BucketName'')
         (Some ''The name of the bucket.'')
         (Range_create \<lparr>line = 4, character = 18\<rparr> \<lparr>line = 4, character = 19\<rparr>))"
    unfolding q a g .
  with h s c r show ?thesis
    unfolding this_def node_def p_def by simp
qed

text \<open>
  As the specification words it, the property fails for the empty key: in the template
  with \<open>""\<close> in the place of \<open>BucketName\<close>, the path of the value has the four segments
  \<open>Resources\<close>, \<open>MyBucket\<close>, \<open>Properties\<close> and the empty key, the resource type is
  determined, and \<open>doHover\<close> asks for the documentation of the resource type, not for
  that of a property.
\<close>

theorem doHover_empty_key_counterexample:
  "getPath (example_name_value example_bucket_type '''')
     = [Key ''Resources'', Key ''MyBucket'', Key ''Properties'', Key '''']
   \<and> getResourceName (example_name_value example_bucket_type '''')
     = Inr (Some (JString ''AWS::S3::Bucket''))
   \<and> specifiedRequest (getPath (example_name_value example_bucket_type ''''))
       (JString ''AWS::S3::Bucket'')
     = GetPropertyDocumentation (JString ''AWS::S3::Bucket'') ''''
   \<and> doHover (example_context (example_name_value example_bucket_type ''''))
       (Some example_template) \<lparr>line = 4, character = 18\<rparr> ()
     = Inr (hoverFor (GetResourceDocumentation (JString ''AWS::S3::Bucket''))
         (Some ''An Amazon S3 bucket.'')
         (Range_create \<lparr>line = 4, character = 18\<rparr> \<lparr>line = 4, character = 19\<rparr>))
   \<and> doHover (example_context (example_name_value example_bucket_type ''''))
       (Some example_template) \<lparr>line = 4, character = 18\<rparr> ()
     \<noteq> Inr (hoverFor
         (specifiedRequest (getPath (example_name_value example_bucket_type ''''))
            (JString ''AWS::S3::Bucket''))
         (askDocumentation (example_context (example_name_value example_bucket_type ''''))
            (specifiedRequest (getPath (example_name_value example_bucket_type ''''))
               (JString ''AWS::S3::Bucket'')))
         (Range_create \<lparr>line = 4, character = 18\<rparr> \<lparr>line = 4, character = 19\<rparr>))"
  by code_simp

subsection \<open>The search for the resource type\<close>

lemma findResourceType_found:
  assumes "findResourceType children = Inr (Some r)"
  shows "\<exists>child \<in> set children. \<exists>k v.
           type child = ''property'' \<and> key child = Some k \<and> location k = Some (Key ''Type'')
           \<and> value' child = Some v \<and> getValue v = r
           \<and> truthy r \<and> indexOf_is_0 r ''AWS::'' = Inr True"
  using assms
proof (induction children)
  case Nil
  then show ?case by simp
next
  case (Cons child children)
  show ?case
  proof (cases "findResourceType children = Inr (Some r)")
    case True
    with Cons.IH show ?thesis by auto
  next
    case False
    with Cons.prems show ?thesis
      by (auto simp: Let_def split: if_splits option.splits sum.splits bool.splits)
  qed
qed

lemma indexOf_is_0_accepts:
  assumes "indexOf_is_0 r t = Inr True"
  shows "(\<exists>s. r = JString s \<and> take (length t) s = t) \<or> (\<exists>xs. r = JArray (JString t # xs))"
  using assms by (cases r) (auto split: list.splits)

lemma ancestorSearch_found:
  assumes "ancestorSearch currentNode depth = Inr (Some r)"
  shows "\<exists>c k t. currentNode = Some c \<and> depth + k < maxDepth
           \<and> ((\<lambda>n. case n of None \<Rightarrow> None | Some m \<Rightarrow> parent m) ^^ k) (Some c) = Some t
           \<and> getResourceName_of t = Inr (Some r)"
  using assms
proof (induction currentNode depth rule: ancestorSearch.induct)
  case (1 currentNode depth)
  let ?up = "\<lambda>n. case n of None \<Rightarrow> None | Some m \<Rightarrow> parent m"
  from "1.prems" obtain c where c: "currentNode = Some c" and d: "depth < maxDepth"
    by (cases currentNode) (auto split: if_splits)
  show ?case
  proof (cases "getResourceName_of c")
    case (Inl e)
    with "1.prems" c d show ?thesis by simp
  next
    case (Inr found)
    show ?thesis
    proof (cases found)
      case (Some r')
      with Inr "1.prems" c d have "r' = r" by simp
      with Some Inr c d have "depth + 0 < maxDepth \<and> (?up ^^ 0) (Some c) = Some c
          \<and> getResourceName_of c = Inr (Some r)"
        by simp
      with c show ?thesis by blast
    next
      case None
      with Inr "1.prems" c d have "ancestorSearch (parent c) (depth + 1) = Inr (Some r)"
        by simp
      from "1.IH" [OF c d Inr None this]
      obtain c' k t where k: "parent c = Some c'" "depth + 1 + k < maxDepth"
          "(?up ^^ k) (Some c') = Some t" "getResourceName_of t = Inr (Some r)"
        by blast
      have "(?up ^^ Suc k) (Some c) = (?up ^^ k) (?up (Some c))"
        by (simp only: funpow_Suc_right o_apply)
      with k have "depth + Suc k < maxDepth \<and> (?up ^^ Suc k) (Some c) = Some t
          \<and> getResourceName_of t = Inr (Some r)"
        by simp
      with c show ?thesis by blast
    qed
  qed
qed

text \<open>
  What holds of the search whenever it yields a resource type: the path of the node
  starts with \<open>Resources\<close> and is longer than one segment, and the resource type is the
  value of a property \<open>Type\<close> of the node itself or of one of its first seven ancestors,
  an object; the value is a string that begins with \<open>AWS::\<close>, or an array whose first
  element is the string \<open>AWS::\<close>.
\<close>

lemma getResourceName_found:
  assumes "getResourceName node = Inr (Some r)"
  shows "js_index (getPath node) 0 = Some (Key ''Resources'') \<and> 1 < length (getPath node)
    \<and> (\<exists>k t. k \<le> maxDepth
          \<and> ((\<lambda>n. case n of None \<Rightarrow> None | Some m \<Rightarrow> parent m) ^^ k) (Some node) = Some t
          \<and> type t = ''object''
          \<and> (\<exists>child \<in> set (getChildNodes t). \<exists>key' v.
                type child = ''property'' \<and> key child = Some key'
                \<and> location key' = Some (Key ''Type'')
                \<and> value' child = Some v \<and> getValue v = r)
          \<and> ((\<exists>s. r = JString s \<and> take (length ''AWS::'') s = ''AWS::'') \<or> (\<exists>xs. r = JArray (JString ''AWS::'' # xs))))"
proof -
  let ?up = "\<lambda>n. case n of None \<Rightarrow> None | Some m \<Rightarrow> parent m"
  have of_found: "\<And>t. getResourceName_of t = Inr (Some r) \<Longrightarrow>
      type t = ''object''
      \<and> (\<exists>child \<in> set (getChildNodes t). \<exists>key' v.
            type child = ''property'' \<and> key child = Some key'
            \<and> location key' = Some (Key ''Type'')
            \<and> value' child = Some v \<and> getValue v = r)
      \<and> ((\<exists>s. r = JString s \<and> take (length ''AWS::'') s = ''AWS::'') \<or> (\<exists>xs. r = JArray (JString ''AWS::'' # xs)))"
  proof -
    fix t assume a: "getResourceName_of t = Inr (Some r)"
    then have o: "type t = ''object''" and f: "findResourceType (getChildNodes t) = Inr (Some r)"
      by (auto simp: getResourceName_of_def split: if_splits)
    from findResourceType_found [OF f] obtain child k v where
      c: "child \<in> set (getChildNodes t)" "type child = ''property''" "key child = Some k"
        "location k = Some (Key ''Type'')" "value' child = Some v" "getValue v = r"
        "indexOf_is_0 r ''AWS::'' = Inr True"
      by blast
    from indexOf_is_0_accepts [OF c(7)]
    have "(\<exists>s. r = JString s \<and> take (length ''AWS::'') s = ''AWS::'') \<or> (\<exists>xs. r = JArray (JString ''AWS::'' # xs))"
      .
    with o c show "type t = ''object''
      \<and> (\<exists>child \<in> set (getChildNodes t). \<exists>key' v.
            type child = ''property'' \<and> key child = Some key'
            \<and> location key' = Some (Key ''Type'')
            \<and> value' child = Some v \<and> getValue v = r)
      \<and> ((\<exists>s. r = JString s \<and> take (length ''AWS::'') s = ''AWS::'') \<or> (\<exists>xs. r = JArray (JString ''AWS::'' # xs)))"
      by blast
  qed
  from assms have path: "js_index (getPath node) 0 = Some (Key ''Resources'')
      \<and> 1 < length (getPath node)"
    by (rule getResourceName_path)
  from assms path have "(case getResourceName_of node of
        Inl e \<Rightarrow> Inl e
      | Inr (Some resourceName) \<Rightarrow> Inr (Some resourceName)
      | Inr None \<Rightarrow> ancestorSearch (parent node) 0) = Inr (Some r)"
    by (simp add: getResourceName_def Let_def)
  then consider
      (self) "getResourceName_of node = Inr (Some r)"
    | (up) "getResourceName_of node = Inr None" "ancestorSearch (parent node) 0 = Inr (Some r)"
    by (cases "getResourceName_of node") (auto split: option.splits)
  then have "\<exists>k t. k \<le> maxDepth \<and> (?up ^^ k) (Some node) = Some t
      \<and> getResourceName_of t = Inr (Some r)"
  proof cases
    case self
    then have "0 \<le> maxDepth \<and> (?up ^^ 0) (Some node) = Some node
        \<and> getResourceName_of node = Inr (Some r)"
      by simp
    then show ?thesis by blast
  next
    case up
    from ancestorSearch_found [OF up(2)]
    obtain c k t where k: "parent node = Some c" "0 + k < maxDepth"
        "(?up ^^ k) (Some c) = Some t" "getResourceName_of t = Inr (Some r)"
      by blast
    have "(?up ^^ Suc k) (Some node) = (?up ^^ k) (?up (Some node))"
      by (simp only: funpow_Suc_right o_apply)
    with k have "Suc k \<le> maxDepth \<and> (?up ^^ Suc k) (Some node) = Some t
        \<and> getResourceName_of t = Inr (Some r)"
      by simp
    then show ?thesis by blast
  qed
  then obtain k t where kt: "k \<le> maxDepth" "(?up ^^ k) (Some node) = Some t"
      "getResourceName_of t = Inr (Some r)"
    by blast
  from of_found [OF kt(3)] kt(1,2) path show ?thesis by blast
qed

text \<open>
  C7. The search does not yield absent for every node that it does not accept: in the
  template with \<open>Type: 123\<close>, the search from the value of \<open>BucketName\<close> comes to the
  resource's object, reads the number 123 as the value of \<open>Type\<close> and calls \<open>indexOf\<close>
  on it, which raises.
\<close>

theorem getResourceName_number_type_raises:
  "getResourceName (example_name_value example_number_type ''BucketName'') = Inl TypeError"
  by code_simp

text \<open>
  C8. \<open>doHover\<close> does not return for every document: with the cursor on the value of
  \<open>BucketName\<close> in the template with \<open>Type: 123\<close>, the search for the resource type
  raises, and so does \<open>doHover\<close>.
\<close>

theorem doHover_number_type_raises:
  "doHover (example_context (example_name_value example_number_type ''BucketName''))
     (Some example_template) \<lparr>line = 4, character = 18\<rparr> () = Inl TypeError"
  by code_simp

end
